theory Spec2Isabelle
  imports Main "HOL-Library.Word" "HOL-Library.Log_Nat"
begin

section \<open>Data model of \<open>WgcBridge.cpp\<close>\<close>

text \<open>
  The capture bridge keeps one \<open>CaptureSession\<close> per captured window. The producer
  callback \<open>OnFrameArrived\<close> turns a GPU frame into a tightly packed host buffer and
  swaps it into \<open>latestData\<close>; the exported C functions read that buffer, lease it,
  and set the crop rectangle and the maximum resolution.

  C \<open>int\<close> and \<open>UINT\<close> are 32-bit words (\<open>sint\<close> reads an \<open>int\<close>, \<open>unat\<close> a
  \<open>UINT\<close>); \<open>std::atomic<int>::fetch_add\<close> wraps around, as word addition does.
  A \<open>std::vector<unsigned char>\<close> is a byte list; two vectors never share storage, so a
  \<open>swap\<close> exchanges the two lists. Sizes of type \<open>size_t\<close> are natural numbers: every
  size computed here is at most \<open>8192 * 4 * 8192 = 2 ^ 28\<close>. A COM texture pointer is an
  opaque handle, \<open>None\<close> for \<open>nullptr\<close>.
\<close>

type_synonym byte = "8 word"
type_synonym cint = "32 word"
type_synonym uint = "32 word"
type_synonym texture = nat

record session =
  latestData :: "byte list"
  backBuffer :: "byte list"
  readers :: cint
  width :: cint
  height :: cint
  frameCount :: cint
  maxWidth :: cint
  maxHeight :: cint
  cropX :: cint
  cropY :: cint
  cropW :: cint
  cropH :: cint
  closing :: bool
  interopEnabled :: bool
  vrrEnabled :: bool
  stagingTexture :: "texture option"
  stagingTextureWidth :: cint
  stagingTextureHeight :: cint
  croppedTexture :: "texture option"
  croppedTextureWidth :: cint
  croppedTextureHeight :: cint
  scaledTexture :: "texture option"
  scaledTextureDescWidth :: uint
  scaledTextureDescHeight :: uint
  latestGpuTexture :: "texture option"

text \<open>The state of \<open>new CaptureSession()\<close>: the member initialisers of the struct.\<close>

definition new_session :: session where
  "new_session = \<lparr> latestData = [], backBuffer = [], readers = 0, width = 0, height = 0,
     frameCount = 0, maxWidth = 0, maxHeight = 0, cropX = 0, cropY = 0, cropW = 0, cropH = 0,
     closing = False, interopEnabled = False, vrrEnabled = False,
     stagingTexture = None, stagingTextureWidth = 0, stagingTextureHeight = 0,
     croppedTexture = None, croppedTextureWidth = 0, croppedTextureHeight = 0,
     scaledTexture = None, scaledTextureDescWidth = 0, scaledTextureDescHeight = 0,
     latestGpuTexture = None \<rparr>"

text \<open>
  \<open>D3D11_MAPPED_SUBRESOURCE\<close>: the row stride in bytes and the mapped memory, addressed
  by its byte offset from \<open>pData\<close>.
\<close>

record mapped =
  RowPitch :: uint
  pData :: "nat \<Rightarrow> byte"

section \<open>The exported lease calls\<close>

text \<open>
  A handle is \<open>Some s\<close>, the null handle is \<open>None\<close>. \<open>AcquireLatestFrame\<close> returns
  \<open>None\<close> for \<open>false\<close> and the values of its four out-parameters for \<open>true\<close>.
\<close>

record lease =
  leaseBuffer :: "byte list"
  leaseSize :: nat
  leaseW :: cint
  leaseH :: cint

definition AcquireLatestFrame :: "session option \<Rightarrow> lease option \<times> session option" where
  "AcquireLatestFrame ptr =
     (case ptr of
        None \<Rightarrow> (None, None)
      | Some s \<Rightarrow>
          if latestData s = [] then (None, Some s)
          else (Some \<lparr> leaseBuffer = latestData s, leaseSize = length (latestData s),
                        leaseW = width s, leaseH = height s \<rparr>,
                Some (s\<lparr> readers := readers s + 1 \<rparr>)))"

definition ReleaseLatestFrame :: "session option \<Rightarrow> session option" where
  "ReleaseLatestFrame ptr =
     (case ptr of None \<Rightarrow> None | Some s \<Rightarrow> Some (s\<lparr> readers := readers s - 1 \<rparr>))"



text \<open>
  Consumer threads run beside the producer callback. Their lease calls are the only calls
  that write \<open>readers\<close>; a list of them stands for what the other threads did at one
  point of the callback.
\<close>

datatype lease_op = Acquire | Release

fun lease_step :: "lease_op \<Rightarrow> session \<Rightarrow> session" where
  "lease_step Acquire s = (case snd (AcquireLatestFrame (Some s)) of Some s' \<Rightarrow> s' | None \<Rightarrow> s)"
| "lease_step Release s = (case ReleaseLatestFrame (Some s) of Some s' \<Rightarrow> s' | None \<Rightarrow> s)"

fun run_leases :: "lease_op list \<Rightarrow> session \<Rightarrow> session" where
  "run_leases [] s = s"
| "run_leases (c # cs) s = run_leases cs (lease_step c s)"

section \<open>Setters\<close>

definition SetCaptureMaxResolution :: "session option \<Rightarrow> cint \<Rightarrow> cint \<Rightarrow> session option" where
  "SetCaptureMaxResolution ptr mw mh =
     (case ptr of None \<Rightarrow> None | Some s \<Rightarrow> Some (s\<lparr> maxWidth := mw, maxHeight := mh \<rparr>))"

definition SAFE_MAX :: cint where
  "SAFE_MAX = 8192"

definition SetCaptureCropRect ::
  "session option \<Rightarrow> cint \<Rightarrow> cint \<Rightarrow> cint \<Rightarrow> cint \<Rightarrow> session option" where
  "SetCaptureCropRect ptr x y w h =
     (case ptr of
        None \<Rightarrow> None
      | Some s \<Rightarrow>
          let x1 = (if x <s 0 then 0 else x);
              y1 = (if y <s 0 then 0 else y);
              w1 = (if w <s 0 then 0 else w);
              h1 = (if h <s 0 then 0 else h);
              w2 = (if SAFE_MAX <s w1 then SAFE_MAX else w1);
              h2 = (if SAFE_MAX <s h1 then SAFE_MAX else h1)
          in Some (s\<lparr> cropX := x1, cropY := y1, cropW := w2, cropH := h2 \<rparr>))"

section \<open>Copy-out and peek\<close>

text \<open>
  \<open>GetLatestFrame\<close> gets the destination memory, its size as the caller states it, and
  the values behind the two out-pointers; it returns the result flag and what the three
  memory places hold afterwards. \<open>memcpy\<close> overwrites the first \<open>size\<close> bytes of the
  destination.
\<close>

definition GetLatestFrame ::
  "session option \<Rightarrow> byte list \<Rightarrow> nat \<Rightarrow> cint \<Rightarrow> cint \<Rightarrow> bool \<times> byte list \<times> cint \<times> cint" where
  "GetLatestFrame ptr outBuffer bufferSize w h =
     (case ptr of
        None \<Rightarrow> (False, outBuffer, w, h)
      | Some s \<Rightarrow>
          if latestData s = [] then (False, outBuffer, w, h)
          else if bufferSize < length (latestData s) then (False, outBuffer, width s, height s)
          else (True, latestData s @ drop (length (latestData s)) outBuffer, width s, height s))"

definition PeekLatestFrame :: "session option \<Rightarrow> (cint \<times> cint \<times> nat) option" where
  "PeekLatestFrame ptr =
     (case ptr of
        None \<Rightarrow> None
      | Some s \<Rightarrow> if latestData s = [] then None
                  else Some (width s, height s, length (latestData s)))"

section \<open>Host buffers and the readback copy\<close>

text \<open>
  \<open>std::vector::resize\<close> keeps the first \<open>n\<close> bytes and value-initialises the rest.
  \<open>memcpy dst d src s n\<close> writes the \<open>n\<close> bytes of the mapped memory \<open>src\<close> that start at
  offset \<open>s\<close> to \<open>dst\<close> from offset \<open>d\<close> on (the caller has resized \<open>dst\<close> to hold them).
\<close>

definition resize :: "nat \<Rightarrow> byte list \<Rightarrow> byte list" where
  "resize n v = take n v @ replicate (n - length v) 0"

definition memcpy :: "byte list \<Rightarrow> nat \<Rightarrow> (nat \<Rightarrow> byte) \<Rightarrow> nat \<Rightarrow> nat \<Rightarrow> byte list" where
  "memcpy dst d src s n = take d dst @ map (\<lambda>i. src (s + i)) [0..<n] @ drop (d + n) dst"

text \<open>
  The row loop \<open>for (int y = 0; y < H; y++) memcpy(buf + y * rs, pData + y * RowPitch, rs)\<close>.
  The destination offset \<open>y * rs\<close> is a \<open>size_t\<close>; the source offset \<open>y * m.RowPitch\<close> is
  a product of an \<open>int\<close> and a \<open>UINT\<close>, computed in 32-bit unsigned arithmetic.
\<close>

function copy_rows :: "nat \<Rightarrow> nat \<Rightarrow> nat \<Rightarrow> uint \<Rightarrow> (nat \<Rightarrow> byte) \<Rightarrow> byte list \<Rightarrow> byte list" where
  "copy_rows y H rs pitch src buf =
     (if y < H
      then copy_rows (Suc y) H rs pitch src (memcpy buf (y * rs) src (unat (of_nat y * pitch)) rs)
      else buf)"
  by pat_completeness auto
termination
  by (relation "measure (\<lambda>(y, H, rs, pitch, src, buf). H - y)") auto

text \<open>
  The copy of both readback blocks of \<open>OnFrameArrived\<close>: \<open>rs = W * 4\<close>, \<open>ts = rs * H\<close>,
  resize the vector to \<open>ts\<close>, then one \<open>memcpy\<close> when the pitch is \<open>rs\<close>, the row loop
  otherwise. \<open>W\<close> and \<open>H\<close> are positive on every path that reaches the copy.
\<close>

definition readback_copy :: "cint \<Rightarrow> cint \<Rightarrow> mapped \<Rightarrow> byte list \<Rightarrow> byte list" where
  "readback_copy W H m buf =
     (let rs = nat (sint W) * 4;
          ts = rs * nat (sint H);
          buf1 = resize ts buf
      in if unat (RowPitch m) = rs then memcpy buf1 0 (pData m) 0 ts
         else copy_rows 0 (nat (sint H)) rs (RowPitch m) (pData m) buf1)"

section \<open>Single-precision arithmetic of the scale computation\<close>

text \<open>
  \<open>float\<close> is IEEE binary32 with round-to-nearest-even, every operation rounded once
  (\<open>FLT_EVAL_METHOD = 0\<close>, as with SSE code). A finite \<open>float\<close> is the rational number it
  stands for. \<open>binade x\<close> is the exponent \<open>e\<close> with \<open>2 ^ e \<le> x < 2 ^ (e + 1)\<close>; \<open>fl32\<close>
  rounds to a 24-bit significand, with the fixed spacing \<open>2 ^ - 149\<close> below \<open>2 ^ - 126\<close>.
  Overflow to infinity is not modelled: no value of the scale computation reaches
  \<open>2 ^ 32\<close>.
\<close>

definition rne :: "rat \<Rightarrow> int" where
  "rne q =
     (let f = \<lfloor>q\<rfloor>; d = q - of_int f
      in if d < 1 / 2 then f else if 1 / 2 < d then f + 1 else if even f then f else f + 1)"

definition binade :: "rat \<Rightarrow> int" where
  "binade x =
     (case quotient_of x of
        (a, b) \<Rightarrow> let k = bitlen a - bitlen b in if 2 powi k \<le> x then k else k - 1)"

definition fl32 :: "rat \<Rightarrow> rat" where
  "fl32 x =
     (if x = 0 then 0
      else let e = max (binade \<bar>x\<bar>) (- 126); u = 2 powi (e - 23)
           in sgn x * of_int (rne (\<bar>x\<bar> / u)) * u)"

text \<open>The cast \<open>(int)\<close> of a \<open>float\<close> truncates towards zero.\<close>

definition trunc :: "rat \<Rightarrow> int" where
  "trunc x = (if 0 \<le> x then \<lfloor>x\<rfloor> else \<lceil>x\<rceil>)"

text \<open>
  Lines 213 to 215:
  \<^verbatim>\<open>float scale = (std::min)((float)maxWidth / currentW, (float)maxHeight / currentH);\<close>
  \<^verbatim>\<open>int targetW = (std::max)(1, (int)(currentW * scale));\<close>
  \<^verbatim>\<open>int targetH = (std::max)(1, (int)(currentH * scale));\<close>
  An \<open>int\<close> operand of a \<open>float\<close> operation is converted to \<open>float\<close> first.
\<close>

definition scale_factor :: "cint \<Rightarrow> cint \<Rightarrow> cint \<Rightarrow> cint \<Rightarrow> rat" where
  "scale_factor mw mh cw ch =
     min (fl32 (fl32 (of_int (sint mw)) / fl32 (of_int (sint cw))))
         (fl32 (fl32 (of_int (sint mh)) / fl32 (of_int (sint ch))))"

definition scale_dim :: "cint \<Rightarrow> rat \<Rightarrow> cint" where
  "scale_dim c scale = of_int (max 1 (trunc (fl32 (fl32 (of_int (sint c)) * scale))))"

definition useScaler :: "cint \<Rightarrow> cint \<Rightarrow> cint \<Rightarrow> cint \<Rightarrow> bool" where
  "useScaler mw mh cw ch \<longleftrightarrow> 0 <s mw \<and> 0 <s mh \<and> (mw <s cw \<or> mh <s ch)"

section \<open>The producer callback\<close>

text \<open>
  What the platform hands to one call of \<open>OnFrameArrived\<close>: whether
  \<open>TryGetNextFrame\<close> gave a frame, whether its surface, its DXGI access interface and
  its texture could be obtained, the texture and its description, the outcome of each
  \<open>CreateTexture2D\<close> (\<open>None\<close> for a failed call) and of each \<open>Map\<close>, and whether
  growing a host vector throws \<open>std::bad_alloc\<close>. The three lists are the lease calls
  that other threads complete between the optimistic load of \<open>readers\<close> and the locked
  re-check in the scaled block (\<open>raceScaled\<close>), between the scaled block and the general
  readback (\<open>raceBetween\<close>), and between the optimistic load and the locked re-check in
  the general block (\<open>raceGeneral\<close>). Lease calls before the first load or after the last
  unlock are calls before or after the callback; while the producer holds \<open>dataMutex\<close>
  an acquire waits, and the producer reads \<open>readers\<close> no more.
\<close>

record frame_env =
  nextFrame :: bool
  surfaceOk :: bool
  accessOk :: bool
  interfaceOk :: bool
  gpuTexture :: texture
  descWidth :: uint
  descHeight :: uint
  createCropped :: "texture option"
  createScaled :: "texture option"
  createReadback :: bool
  mapReadback :: "mapped option"
  backBufferThrows :: bool
  createStaging :: "texture option"
  mapStaging :: "mapped option"
  localBufferThrows :: bool
  raceScaled :: "lease_op list"
  raceBetween :: "lease_op list"
  raceGeneral :: "lease_op list"

text \<open>
  Lines 172 to 202, the GPU crop. It yields the session with its crop cache updated, the
  current texture and the current working dimensions.
\<close>

definition crop_stage :: "frame_env \<Rightarrow> session \<Rightarrow> session \<times> texture \<times> cint \<times> cint" where
  "crop_stage env s =
     (let localCropW = cropW s; localCropH = cropH s
      in if 0 <s localCropW \<and> 0 <s localCropH then
           let s1 = (if croppedTexture s = None \<or> croppedTextureWidth s \<noteq> localCropW
                        \<or> croppedTextureHeight s \<noteq> localCropH
                     then (case createCropped env of
                             Some t \<Rightarrow> s\<lparr> croppedTexture := Some t,
                                          croppedTextureWidth := localCropW,
                                          croppedTextureHeight := localCropH \<rparr>
                           | None \<Rightarrow> s\<lparr> croppedTexture := None \<rparr>)
                     else s)
           in (case croppedTexture s1 of
                 Some t \<Rightarrow> (s1, t, localCropW, localCropH)
               | None \<Rightarrow> (s1, gpuTexture env, descWidth env, descHeight env))
         else (s, gpuTexture env, descWidth env, descHeight env))"

text \<open>
  Lines 209 to 368, the scaler block. The shader pipeline objects, the draw call and the
  debug output have no effect on the host state and are left out; \<open>reserve\<close> changes
  only the capacity of \<open>backBuffer\<close>. A failed \<open>CreateTexture2D\<close> for the scaled texture
  leaves \<open>scaledTexture\<close> null, its result being ignored. The result flag is the local
  \<open>frameUpdated\<close>; every exit of the block without the swap, the \<open>catch\<close> included,
  leaves it false.
\<close>

definition scale_stage :: "frame_env \<Rightarrow> cint \<Rightarrow> cint \<Rightarrow> session \<Rightarrow> session \<times> bool" where
  "scale_stage env currentW currentH s =
     (let scale = scale_factor (maxWidth s) (maxHeight s) currentW currentH;
          targetW = scale_dim currentW scale;
          targetH = scale_dim currentH scale;
          s1 = (if scaledTexture s = None \<or> scaledTextureDescWidth s \<noteq> targetW
                   \<or> scaledTextureDescHeight s \<noteq> targetH
                then s\<lparr> scaledTexture := createScaled env,
                        scaledTextureDescWidth := targetW,
                        scaledTextureDescHeight := targetH \<rparr>
                else s);
          s2 = s1\<lparr> latestGpuTexture := scaledTexture s1 \<rparr>
      in if \<not> createReadback env then (s2, False)
         else case mapReadback env of
                None \<Rightarrow> (s2, False)
              | Some m \<Rightarrow>
                  if backBufferThrows env then (s2, False)
                  else
                    let s3 = s2\<lparr> backBuffer := readback_copy targetW targetH m (backBuffer s2) \<rparr>;
                        curReaders = readers s3
                    in if curReaders = 0 then
                         (let s4 = run_leases (raceScaled env) s3
                          in if readers s4 = 0
                             then (s4\<lparr> latestData := backBuffer s4, backBuffer := latestData s4,
                                        width := targetW, height := targetH,
                                        frameCount := frameCount s4 + 1 \<rparr>, True)
                             else (s4, False))
                       else (s3, False))"

text \<open>
  Lines 370 to 436, the general readback with its own publish. \<open>localBuffer\<close> is a new,
  empty vector; after the swap it holds the old frame and is destroyed. An exception of
  \<open>resize\<close> ends in the \<open>catch\<close> of the callback. The \<open>Present\<close> on the VRR swap chain
  that follows does not touch the session.
\<close>

definition readback_stage :: "frame_env \<Rightarrow> cint \<Rightarrow> cint \<Rightarrow> session \<Rightarrow> session" where
  "readback_stage env copyW copyH s =
     (let r = (if stagingTexture s = None \<or> stagingTextureWidth s \<noteq> copyW
                  \<or> stagingTextureHeight s \<noteq> copyH
               then (case createStaging env of
                       None \<Rightarrow> (s\<lparr> stagingTexture := None \<rparr>, False)
                     | Some t \<Rightarrow> (s\<lparr> stagingTexture := Some t, stagingTextureWidth := copyW,
                                      stagingTextureHeight := copyH \<rparr>, True))
               else (s, True))
      in case r of
           (s1, created) \<Rightarrow>
             if \<not> created then s1
             else (case mapStaging env of
                     None \<Rightarrow> s1
                   | Some m \<Rightarrow>
                       if localBufferThrows env then s1
                       else
                         let localBuffer = readback_copy copyW copyH m []
                         in if readers s1 = 0 then
                              (let s2 = run_leases (raceGeneral env) s1
                               in if readers s2 = 0
                                  then s2\<lparr> latestData := localBuffer, width := copyW,
                                           height := copyH, frameCount := frameCount s2 + 1 \<rparr>
                                  else s2)
                            else s1))"

definition OnFrameArrived :: "frame_env \<Rightarrow> session \<Rightarrow> session" where
  "OnFrameArrived env s =
     (if closing s then s
      else if \<not> nextFrame env then s
      else if \<not> surfaceOk env then s
      else if \<not> accessOk env then s
      else if \<not> interfaceOk env then s
      else if sint (descWidth env) \<le> 0 \<or> sint (descHeight env) \<le> 0 then s
      else if 8192 < sint (descWidth env) \<or> 8192 < sint (descHeight env) then s
      else
        case crop_stage env s of
          (s1, currentGpu, currentW, currentH) \<Rightarrow>
            let s2 = s1\<lparr> latestGpuTexture := Some currentGpu \<rparr>;
                r = (if useScaler (maxWidth s2) (maxHeight s2) currentW currentH
                     then scale_stage env currentW currentH s2
                     else (s2, False))
            in case r of
                 (s3, frameUpdated) \<Rightarrow>
                   if \<not> frameUpdated
                   then readback_stage env currentW currentH (run_leases (raceBetween env) s3)
                   else s3)"

section \<open>Sample inputs\<close>

text \<open>
  A frame of the given size on which every platform call succeeds, with no lease call
  racing the callback. Both mapped textures have the given row pitch, and the byte at
  offset \<open>i\<close> of the mapped memory is \<open>i mod 256\<close>.
\<close>

definition sample_map :: "uint \<Rightarrow> mapped" where
  "sample_map pitch = \<lparr> RowPitch = pitch, pData = of_nat \<rparr>"

definition sample_frame :: "uint \<Rightarrow> uint \<Rightarrow> uint \<Rightarrow> frame_env" where
  "sample_frame w h pitch =
     \<lparr> nextFrame = True, surfaceOk = True, accessOk = True, interfaceOk = True,
       gpuTexture = 1, descWidth = w, descHeight = h,
       createCropped = Some 2, createScaled = Some 3, createReadback = True,
       mapReadback = Some (sample_map pitch), backBufferThrows = False,
       createStaging = Some 4, mapStaging = Some (sample_map pitch),
       localBufferThrows = False,
       raceScaled = [], raceBetween = [], raceGeneral = [] \<rparr>"

text \<open>A session that has published one 1 x 1 frame.\<close>

definition one_pixel_session :: session where
  "one_pixel_session =
     new_session\<lparr> latestData := [0, 1, 2, 3], width := 1, height := 1, frameCount := 1,
       stagingTexture := Some 4, stagingTextureWidth := 1, stagingTextureHeight := 1,
       latestGpuTexture := Some 1 \<rparr>"

section \<open>The scale formula as the specification words it\<close>


section \<open>Auxiliary notions for the statements\<close>

text \<open>
  A frame is accepted when the callback gets past all its early returns: the session is
  not closing, the frame and its texture were obtained, and both texture dimensions are
  between 1 and 8192.
\<close>

definition frame_accepted :: "frame_env \<Rightarrow> session \<Rightarrow> bool" where
  "frame_accepted env s \<longleftrightarrow>
     \<not> closing s \<and> nextFrame env \<and> surfaceOk env \<and> accessOk env \<and> interfaceOk env \<and>
     0 < sint (descWidth env) \<and> 0 < sint (descHeight env) \<and>
     sint (descWidth env) \<le> 8192 \<and> sint (descHeight env) \<le> 8192"


section \<open>Facts about the lease calls and the stages\<close>



lemma lease_step_fields [simp]:
  "latestData (lease_step c s) = latestData s"
  "width (lease_step c s) = width s"
  "height (lease_step c s) = height s"
  "frameCount (lease_step c s) = frameCount s"
  by (cases c; simp add: AcquireLatestFrame_def ReleaseLatestFrame_def)+

lemma run_leases_fields [simp]:
  "latestData (run_leases cs s) = latestData s"
  "width (run_leases cs s) = width s"
  "height (run_leases cs s) = height s"
  "frameCount (run_leases cs s) = frameCount s"
  by (induction cs arbitrary: s; simp)+

lemma lease_step_readers_cong:
  "readers s = readers t \<Longrightarrow> latestData s = latestData t \<Longrightarrow>
     readers (lease_step c s) = readers (lease_step c t)"
  by (cases c) (simp_all add: AcquireLatestFrame_def ReleaseLatestFrame_def)

lemma run_leases_readers_cong:
  "readers s = readers t \<Longrightarrow> latestData s = latestData t \<Longrightarrow>
     readers (run_leases cs s) = readers (run_leases cs t)"
proof (induction cs arbitrary: s t)
  case Nil
  then show ?case by simp
next
  case (Cons c cs)
  have r: "readers (lease_step c s) = readers (lease_step c t)"
    using Cons.prems by (rule lease_step_readers_cong)
  have l: "latestData (lease_step c s) = latestData (lease_step c t)"
    using Cons.prems by simp
  show ?case
    using Cons.IH [OF r l] by simp
qed

lemma run_leases_readers_update [simp]:
  "readers (run_leases cs (backBuffer_update f1 s)) = readers (run_leases cs s)"
  "readers (run_leases cs (latestGpuTexture_update f2 s)) = readers (run_leases cs s)"
  "readers (run_leases cs (scaledTexture_update f3 s)) = readers (run_leases cs s)"
  "readers (run_leases cs (scaledTextureDescWidth_update f4 s)) = readers (run_leases cs s)"
  "readers (run_leases cs (scaledTextureDescHeight_update f5 s)) = readers (run_leases cs s)"
  "readers (run_leases cs (stagingTexture_update f6 s)) = readers (run_leases cs s)"
  "readers (run_leases cs (stagingTextureWidth_update f7 s)) = readers (run_leases cs s)"
  "readers (run_leases cs (stagingTextureHeight_update f8 s)) = readers (run_leases cs s)"
  by (rule run_leases_readers_cong, simp, simp)+


lemma crop_stage_fields:
  "crop_stage env s = (s1, g, w, h) \<Longrightarrow>
     latestData s1 = latestData s \<and> width s1 = width s \<and> height s1 = height s \<and>
     frameCount s1 = frameCount s \<and> readers s1 = readers s"
  by (auto simp: crop_stage_def Let_def split: if_splits option.splits)

lemma scale_stage_flag:
  "snd (scale_stage env w h s) \<longleftrightarrow>
     createReadback env \<and> mapReadback env \<noteq> None \<and> \<not> backBufferThrows env \<and>
     readers s = 0 \<and> readers (run_leases (raceScaled env) s) = 0"
  unfolding scale_stage_def Let_def
  by (simp split: option.splits)

lemma scale_stage_published:
  "snd (scale_stage env w h s) \<Longrightarrow>
     readers (fst (scale_stage env w h s)) = 0 \<and>
     frameCount (fst (scale_stage env w h s)) = frameCount s + 1"
  unfolding scale_stage_def Let_def
  by (simp split: if_splits option.splits)

lemma scale_stage_dropped:
  "\<not> snd (scale_stage env w h s) \<Longrightarrow>
     latestData (fst (scale_stage env w h s)) = latestData s \<and>
     width (fst (scale_stage env w h s)) = width s \<and>
     height (fst (scale_stage env w h s)) = height s \<and>
     frameCount (fst (scale_stage env w h s)) = frameCount s"
  unfolding scale_stage_def Let_def
  by (simp split: if_splits option.splits)

lemma readback_stage_cases:
  "(latestData (readback_stage env w h s) = latestData s \<and>
    width (readback_stage env w h s) = width s \<and>
    height (readback_stage env w h s) = height s \<and>
    frameCount (readback_stage env w h s) = frameCount s) \<or>
   (readers s = 0 \<and> readers (run_leases (raceGeneral env) s) = 0 \<and>
    readers (readback_stage env w h s) = 0 \<and>
    frameCount (readback_stage env w h s) = frameCount s + 1)"
  unfolding readback_stage_def Let_def
  by (simp split: option.splits)

lemma OnFrameArrived_rejected:
  "\<not> frame_accepted env s \<Longrightarrow> OnFrameArrived env s = s"
  by (auto simp: frame_accepted_def OnFrameArrived_def)

lemma OnFrameArrived_unscaled:
  assumes "frame_accepted env s" and "crop_stage env s = (s1, g, w, h)"
    and "\<not> useScaler (maxWidth s1) (maxHeight s1) w h"
  shows "OnFrameArrived env s =
    readback_stage env w h (run_leases (raceBetween env) (s1\<lparr> latestGpuTexture := Some g \<rparr>))"
  using assms by (simp add: frame_accepted_def OnFrameArrived_def Let_def)

lemma OnFrameArrived_scaled:
  assumes "frame_accepted env s" and "crop_stage env s = (s1, g, w, h)"
    and "useScaler (maxWidth s1) (maxHeight s1) w h"
  shows "OnFrameArrived env s =
    (if snd (scale_stage env w h (s1\<lparr> latestGpuTexture := Some g \<rparr>))
     then fst (scale_stage env w h (s1\<lparr> latestGpuTexture := Some g \<rparr>))
     else readback_stage env w h (run_leases (raceBetween env)
            (fst (scale_stage env w h (s1\<lparr> latestGpuTexture := Some g \<rparr>)))))"
  using assms by (simp add: frame_accepted_def OnFrameArrived_def Let_def split_beta)

lemma OnFrameArrived_cases:
  "(latestData (OnFrameArrived env s) = latestData s \<and>
    width (OnFrameArrived env s) = width s \<and>
    height (OnFrameArrived env s) = height s \<and>
    frameCount (OnFrameArrived env s) = frameCount s) \<or>
   (readers (OnFrameArrived env s) = 0 \<and>
    frameCount (OnFrameArrived env s) = frameCount s + 1)"
proof (cases "frame_accepted env s")
  case False
  then show ?thesis by (simp add: OnFrameArrived_rejected)
next
  case True
  obtain s1 g w h where crop: "crop_stage env s = (s1, g, w, h)"
    by (metis prod_cases4)
  note c = crop_stage_fields [OF crop]
  let ?s2 = "s1\<lparr> latestGpuTexture := Some g \<rparr>"
  have s2: "latestData ?s2 = latestData s" "width ?s2 = width s" "height ?s2 = height s"
    "frameCount ?s2 = frameCount s"
    using c by simp_all
  show ?thesis
  proof (cases "useScaler (maxWidth s1) (maxHeight s1) w h")
    case False
    let ?t = "run_leases (raceBetween env) ?s2"
    have "OnFrameArrived env s = readback_stage env w h ?t"
      using True crop False by (rule OnFrameArrived_unscaled)
    then show ?thesis
      using readback_stage_cases [of env w h ?t] s2 by auto
  next
    case scaled: True
    let ?r = "scale_stage env w h ?s2"
    let ?t = "run_leases (raceBetween env) (fst ?r)"
    have eq: "OnFrameArrived env s = (if snd ?r then fst ?r else readback_stage env w h ?t)"
      using True crop scaled by (rule OnFrameArrived_scaled)
    show ?thesis
    proof (cases "snd ?r")
      case True
      then show ?thesis
        using eq scale_stage_published [of env w h ?s2] s2 by simp
    next
      case False
      then show ?thesis
        using eq scale_stage_dropped [of env w h ?s2] s2 readback_stage_cases [of env w h ?t]
        by auto
    qed
  qed
qed





lemma sint_clamp_lo: "sint (if (x::cint) <s 0 then 0 else x) = max 0 (sint x)"
  by (simp add: word_sless_alt max_def)

lemma sint_clamp_hi: "sint (if SAFE_MAX <s (x::cint) then SAFE_MAX else x) = min 8192 (sint x)"
  by (simp add: word_sless_alt min_def SAFE_MAX_def)

lemma scale_4x2_to_2x1:
  "scale_factor 2 1 4 2 = 1 / 2" "scale_dim 4 (1 / 2) = 2" "scale_dim 2 (1 / 2) = 1"
  by code_simp+

lemma readback_2x1: "readback_copy 2 1 (sample_map 16) [] = [0, 1, 2, 3, 4, 5, 6, 7]"
  by code_simp

lemma readback_4x2: "length (readback_copy 4 2 (sample_map 16) []) = 32"
  by code_simp

section \<open>Facts about the readback copy\<close>

lemma length_resize [simp]: "length (resize n v) = n"
  by (simp add: resize_def)

lemma length_memcpy: "d + n \<le> length dst \<Longrightarrow> length (memcpy dst d src s n) = length dst"
  by (simp add: memcpy_def)

lemma memcpy_whole: "length dst = n \<Longrightarrow> memcpy dst 0 src 0 n = map src [0..<n]"
  by (simp add: memcpy_def)

lemma copy_rows_eq:
  "length buf = H * rs \<Longrightarrow> y \<le> H \<Longrightarrow>
   copy_rows y H rs pitch src buf =
     take (y * rs) buf @
     concat (map (\<lambda>j. map (\<lambda>i. src (unat (of_nat j * pitch) + i)) [0..<rs]) [y..<H])"
proof (induction y H rs pitch src buf rule: copy_rows.induct)
  case (1 y H rs pitch src buf)
  show ?case
  proof (cases "y < H")
    case False
    then have "y = H" using "1.prems" by simp
    then show ?thesis
      using "1.prems" by simp
  next
    case True
    let ?row = "map (\<lambda>i. src (unat (of_nat y * pitch) + i)) [0..<rs]"
    let ?buf = "memcpy buf (y * rs) src (unat (of_nat y * pitch)) rs"
    have le: "y * rs + rs \<le> length buf"
    proof -
      have "Suc y * rs \<le> H * rs"
        using True by (intro mult_le_mono1) simp
      then show ?thesis using "1.prems" by simp
    qed
    have len: "length ?buf = H * rs"
      using le "1.prems" by (simp add: length_memcpy)
    have buf: "?buf = take (y * rs) buf @ ?row @ drop (y * rs + rs) buf"
      by (simp add: memcpy_def)
    have tk: "take (Suc y * rs) ?buf = take (y * rs) buf @ ?row"
      using le by (simp add: buf)
    have "copy_rows y H rs pitch src buf = copy_rows (Suc y) H rs pitch src ?buf"
      using True by simp
    also have "\<dots> = take (Suc y * rs) ?buf @
        concat (map (\<lambda>j. map (\<lambda>i. src (unat (of_nat j * pitch) + i)) [0..<rs]) [Suc y..<H])"
      using "1.IH" [OF True len] True by simp
    also have "\<dots> = take (y * rs) buf @
        concat (map (\<lambda>j. map (\<lambda>i. src (unat (of_nat j * pitch) + i)) [0..<rs]) [y..<H])"
      using True by (simp only: tk upt_conv_Cons [OF True]) simp
    finally show ?thesis .
  qed
qed

lemma readback_copy_eq:
  "readback_copy W H m buf =
     (if unat (RowPitch m) = nat (sint W) * 4
      then map (pData m) [0..<nat (sint W) * 4 * nat (sint H)]
      else concat (map (\<lambda>y. map (\<lambda>x. pData m (unat (of_nat y * RowPitch m) + x))
                                [0..<nat (sint W) * 4]) [0..<nat (sint H)]))"
proof -
  let ?rs = "nat (sint W) * 4"
  let ?ts = "?rs * nat (sint H)"
  have l: "length (resize ?ts buf) = nat (sint H) * ?rs"
    by (simp add: mult.commute)
  show ?thesis
    unfolding readback_copy_def Let_def
    using copy_rows_eq [OF l, of 0 "RowPitch m" "pData m"]
    by (simp add: memcpy_whole)
qed

lemma length_concat_rows:
  "length (concat (map (\<lambda>y. map (f y) [0..<n]) [0..<k])) = n * k"
  by (induction k) simp_all

lemma length_readback_copy:
  "length (readback_copy W H m buf) = nat (sint W) * 4 * nat (sint H)"
  by (simp add: readback_copy_eq length_concat_rows)

lemma row_offset:
  "y * unat (p::uint) < 2 ^ 32 \<Longrightarrow> unat (of_nat y * p) = y * unat p"
proof -
  assume a: "y * unat p < 2 ^ 32"
  have "unat (of_nat y * p) = (unat (of_nat y :: uint) * unat p) mod 2 ^ 32"
    by (simp add: unat_word_ariths)
  also have "\<dots> = (y mod 2 ^ 32 * unat p) mod 2 ^ 32"
    by (simp add: unat_of_nat)
  also have "\<dots> = (y * unat p) mod 2 ^ 32"
    by (simp add: mod_mult_left_eq)
  also have "\<dots> = y * unat p"
    using a by simp
  finally show ?thesis .
qed

lemma lease_step_backBuffer [simp]: "backBuffer (lease_step c s) = backBuffer s"
  by (cases c) (simp_all add: AcquireLatestFrame_def ReleaseLatestFrame_def)

lemma run_leases_backBuffer [simp]: "backBuffer (run_leases cs s) = backBuffer s"
  by (induction cs arbitrary: s) simp_all

lemma scale_stage_buffer:
  "createReadback env \<Longrightarrow> mapReadback env = Some m \<Longrightarrow> \<not> backBufferThrows env \<Longrightarrow>
   (if snd (scale_stage env w h s) then latestData (fst (scale_stage env w h s))
    else backBuffer (fst (scale_stage env w h s))) =
   readback_copy (scale_dim w (scale_factor (maxWidth s) (maxHeight s) w h))
     (scale_dim h (scale_factor (maxWidth s) (maxHeight s) w h)) m (backBuffer s)"
  unfolding scale_stage_def Let_def
  by (simp split: option.splits)

lemma readback_stage_publishes:
  assumes "mapStaging env = Some m" and "\<not> localBufferThrows env"
    and "stagingTexture s \<noteq> None \<and> stagingTextureWidth s = w \<and> stagingTextureHeight s = h
         \<or> createStaging env \<noteq> None"
    and "readers s = 0" and "readers (run_leases (raceGeneral env) s) = 0"
  shows "latestData (readback_stage env w h s) = readback_copy w h m [] \<and>
     width (readback_stage env w h s) = w \<and> height (readback_stage env w h s) = h"
  using assms unfolding readback_stage_def Let_def
  by (auto split: option.splits)

section \<open>Facts about single-precision rounding\<close>

































lemma crop_stage_dims:
  assumes "frame_accepted env s" and "sint (cropW s) \<le> 8192" and "sint (cropH s) \<le> 8192"
    and "crop_stage env s = (s1, g, w, h)"
  shows "0 < sint w \<and> sint w \<le> 8192 \<and> 0 < sint h \<and> sint h \<le> 8192"
  using assms
  by (auto simp: frame_accepted_def crop_stage_def Let_def word_sless_alt
      split: if_splits option.splits)



section \<open>Invalid frames are dropped\<close>

text \<open>
  Claim C5. A frame whose texture width or height, read as \<open>int\<close>, is at most 0 or more
  than 8192 is dropped: the callback returns, raising nothing, and leaves the whole
  session as it was; so the latest buffer, the published width and height and the frame
  counter are unchanged.
\<close>

theorem invalid_frame_dropped:
  "sint (descWidth env) \<le> 0 \<or> sint (descHeight env) \<le> 0 \<or>
   8192 < sint (descWidth env) \<or> 8192 < sint (descHeight env) \<Longrightarrow>
   OnFrameArrived env s = s"
  by (auto simp: OnFrameArrived_def)

theorem invalid_frame_dropped_witness:
  "8192 < sint (descWidth (sample_frame 9000 1 4)) \<and>
   OnFrameArrived (sample_frame 9000 1 4) one_pixel_session = one_pixel_session"
  using invalid_frame_dropped [of "sample_frame 9000 1 4" one_pixel_session]
  by (simp add: sample_frame_def)

section \<open>The copy-out call\<close>

text \<open>
  Claim C8. With a non-null handle, \<open>GetLatestFrame\<close> returns true and copies the whole
  latest buffer to the start of the destination when a frame has been published and the
  destination size suffices; it returns false and leaves the destination as it was when
  no frame has been published or the destination size is less than the buffer's size.
\<close>

theorem GetLatestFrame_copy_or_nothing:
  "(latestData s \<noteq> [] \<and> length (latestData s) \<le> n \<longrightarrow>
      fst (GetLatestFrame (Some s) out n w h) \<and>
      fst (snd (GetLatestFrame (Some s) out n w h)) =
        latestData s @ drop (length (latestData s)) out) \<and>
   (latestData s = [] \<or> n < length (latestData s) \<longrightarrow>
      \<not> fst (GetLatestFrame (Some s) out n w h) \<and>
      fst (snd (GetLatestFrame (Some s) out n w h)) = out)"
  by (auto simp: GetLatestFrame_def)

theorem GetLatestFrame_copy_or_nothing_witness:
  "latestData one_pixel_session \<noteq> [] \<and> length (latestData one_pixel_session) \<le> 6 \<and>
   fst (GetLatestFrame (Some one_pixel_session) [9, 9, 9, 9, 9, 9] 6 0 0) \<and>
   fst (snd (GetLatestFrame (Some one_pixel_session) [9, 9, 9, 9, 9, 9] 6 0 0)) =
     [0, 1, 2, 3, 9, 9] \<and>
   3 < length (latestData one_pixel_session) \<and>
   \<not> fst (GetLatestFrame (Some one_pixel_session) [9, 9, 9] 3 0 0) \<and>
   fst (snd (GetLatestFrame (Some one_pixel_session) [9, 9, 9] 3 0 0)) = [9, 9, 9]"
  using GetLatestFrame_copy_or_nothing [of one_pixel_session 6 "[9, 9, 9, 9, 9, 9]" 0 0]
    GetLatestFrame_copy_or_nothing [of one_pixel_session 3 "[9, 9, 9]" 0 0]
  by (simp add: one_pixel_session_def new_session_def)

text \<open>
  Claim C10. When a frame has been published and the destination size is less than the
  frame's size, \<open>GetLatestFrame\<close> returns false with the destination untouched, but the
  two out-parameters already hold the current width and height; when no frame has been
  published it returns false and the out-parameters keep their values.
\<close>

theorem GetLatestFrame_out_params:
  "(latestData s \<noteq> [] \<and> n < length (latestData s) \<longrightarrow>
      GetLatestFrame (Some s) out n w h = (False, out, width s, height s)) \<and>
   (latestData s = [] \<longrightarrow> GetLatestFrame (Some s) out n w h = (False, out, w, h))"
  by (simp add: GetLatestFrame_def)

theorem GetLatestFrame_out_params_witness:
  "latestData one_pixel_session \<noteq> [] \<and> 3 < length (latestData one_pixel_session) \<and>
   GetLatestFrame (Some one_pixel_session) [9, 9, 9] 3 7 7 = (False, [9, 9, 9], 1, 1) \<and>
   latestData new_session = [] \<and>
   GetLatestFrame (Some new_session) [9, 9, 9] 3 7 7 = (False, [9, 9, 9], 7, 7)"
  using GetLatestFrame_out_params [of one_pixel_session 3 "[9, 9, 9]" 7 7]
    GetLatestFrame_out_params [of new_session 3 "[9, 9, 9]" 7 7]
  by (simp add: one_pixel_session_def new_session_def)

section \<open>The publish gate\<close>

text \<open>
  Claim C1. The latest buffer is replaced only when the reader count is 0 at the
  replacement. Whenever the callback changes the latest buffer, the published width or
  height, or the frame counter, the reader count is 0 when it returns (the callback does
  not write the count, and no racing lease call is placed after the swap). In the scaled
  block the swap happens exactly when the readback succeeded, the optimistic load of
  \<open>readers\<close> gave 0, and the load under \<open>dataMutex\<close>, after the lease calls that raced in
  between, gave 0 again; otherwise the latest buffer is kept. The general block replaces
  the buffer only if both of its loads gave 0. A buffer handed out by
  \<open>AcquireLatestFrame\<close> is still the latest buffer after a callback that ends with a
  nonzero reader count.
\<close>

theorem latest_replaced_only_without_readers:
  "(latestData (OnFrameArrived env s) \<noteq> latestData s \<or>
    width (OnFrameArrived env s) \<noteq> width s \<or>
    height (OnFrameArrived env s) \<noteq> height s \<or>
    frameCount (OnFrameArrived env s) \<noteq> frameCount s \<longrightarrow>
      readers (OnFrameArrived env s) = 0) \<and>
   (snd (scale_stage env w h s) \<longleftrightarrow>
      createReadback env \<and> mapReadback env \<noteq> None \<and> \<not> backBufferThrows env \<and>
      readers s = 0 \<and> readers (run_leases (raceScaled env) s) = 0) \<and>
   (\<not> snd (scale_stage env w h s) \<longrightarrow>
      latestData (fst (scale_stage env w h s)) = latestData s) \<and>
   (latestData (readback_stage env w h s) \<noteq> latestData s \<longrightarrow>
      readers s = 0 \<and> readers (run_leases (raceGeneral env) s) = 0) \<and>
   (AcquireLatestFrame (Some s) = (Some l, Some s1) \<and> readers (OnFrameArrived env s1) \<noteq> 0 \<longrightarrow>
      latestData (OnFrameArrived env s1) = leaseBuffer l)"
proof (intro conjI impI)
  assume "latestData (OnFrameArrived env s) \<noteq> latestData s \<or>
    width (OnFrameArrived env s) \<noteq> width s \<or>
    height (OnFrameArrived env s) \<noteq> height s \<or>
    frameCount (OnFrameArrived env s) \<noteq> frameCount s"
  then show "readers (OnFrameArrived env s) = 0"
    using OnFrameArrived_cases [of env s] by auto
next
  show "snd (scale_stage env w h s) \<longleftrightarrow>
      createReadback env \<and> mapReadback env \<noteq> None \<and> \<not> backBufferThrows env \<and>
      readers s = 0 \<and> readers (run_leases (raceScaled env) s) = 0"
    by (rule scale_stage_flag)
next
  assume "\<not> snd (scale_stage env w h s)"
  then show "latestData (fst (scale_stage env w h s)) = latestData s"
    by (simp add: scale_stage_dropped)
next
  assume a: "latestData (readback_stage env w h s) \<noteq> latestData s"
  show "readers s = 0" using a readback_stage_cases [of env w h s] by auto
  show "readers (run_leases (raceGeneral env) s) = 0"
    using a readback_stage_cases [of env w h s] by auto
next
  assume a: "AcquireLatestFrame (Some s) = (Some l, Some s1) \<and> readers (OnFrameArrived env s1) \<noteq> 0"
  then have "leaseBuffer l = latestData s1"
    by (auto simp: AcquireLatestFrame_def split: if_splits)
  moreover have "latestData (OnFrameArrived env s1) = latestData s1"
    using a OnFrameArrived_cases [of env s1] by auto
  ultimately show "latestData (OnFrameArrived env s1) = leaseBuffer l"
    by simp
qed

theorem latest_replaced_only_without_readers_witness:
  "frameCount (OnFrameArrived (sample_frame 1 1 4) new_session) \<noteq> frameCount new_session \<and>
   readers (OnFrameArrived (sample_frame 1 1 4) new_session) = 0 \<and>
   AcquireLatestFrame (Some one_pixel_session) =
     (Some \<lparr> leaseBuffer = [0, 1, 2, 3], leaseSize = 4, leaseW = 1, leaseH = 1 \<rparr>,
      Some (one_pixel_session\<lparr> readers := 1 \<rparr>)) \<and>
   readers (OnFrameArrived (sample_frame 2 2 16) (one_pixel_session\<lparr> readers := 1 \<rparr>)) \<noteq> 0 \<and>
   latestData (OnFrameArrived (sample_frame 2 2 16) (one_pixel_session\<lparr> readers := 1 \<rparr>)) =
     [0, 1, 2, 3]"
proof -
  let ?l = "\<lparr> leaseBuffer = [0, 1, 2, 3], leaseSize = 4, leaseW = 1, leaseH = 1 \<rparr>"
  let ?s1 = "one_pixel_session\<lparr> readers := 1 \<rparr>"
  have h1: "frameCount (OnFrameArrived (sample_frame 1 1 4) new_session) \<noteq> frameCount new_session"
    by code_simp
  have h2: "AcquireLatestFrame (Some one_pixel_session) = (Some ?l, Some ?s1)"
    by (simp add: AcquireLatestFrame_def one_pixel_session_def new_session_def)
  have h3: "readers (OnFrameArrived (sample_frame 2 2 16) ?s1) \<noteq> 0"
    by code_simp
  have c1: "readers (OnFrameArrived (sample_frame 1 1 4) new_session) = 0"
    using latest_replaced_only_without_readers
      [where env = "sample_frame 1 1 4" and s = new_session] h1 by blast
  have c2: "latestData (OnFrameArrived (sample_frame 2 2 16) ?s1) = leaseBuffer ?l"
    using latest_replaced_only_without_readers
      [where env = "sample_frame 2 2 16" and s = one_pixel_session and l = ?l and ?s1.0 = ?s1]
      h2 h3 by blast
  show ?thesis
    using h1 h2 h3 c1 c2 by simp
qed

section \<open>The frame counter\<close>





section \<open>The reader count\<close>




section \<open>The crop rectangle\<close>

text \<open>
  Claim C6 as stated fails: \<open>SetCaptureCropRect\<close> clamps \<open>x\<close> and \<open>y\<close> from below only,
  so an \<open>x\<close> of 10000 is stored as 10000, not as 8192.
\<close>

theorem crop_x_not_clamped_above:
  "map_option cropX (SetCaptureCropRect (Some new_session) 10000 0 10 10) = Some 10000"
  by (simp add: SetCaptureCropRect_def new_session_def SAFE_MAX_def word_sless_alt)

text \<open>
  Claim C6, amended. For all arguments, \<open>SetCaptureCropRect\<close> on a non-null handle stores
  \<open>x\<close> and \<open>y\<close> with negative values replaced by 0 (and no upper limit), and \<open>width\<close>
  and \<open>height\<close> with negative values replaced by 0 and values above 8192 replaced by
  8192. When the stored width or height is 0, the crop step of the callback hands on the
  source texture and its dimensions and leaves the session as it was.
\<close>

theorem crop_rect_clamped:
  "SetCaptureCropRect (Some s) x y w h \<noteq> None \<and>
   (SetCaptureCropRect (Some s) x y w h = Some s' \<longrightarrow>
      sint (cropX s') = max 0 (sint x) \<and> sint (cropY s') = max 0 (sint y) \<and>
      sint (cropW s') = min 8192 (max 0 (sint w)) \<and>
      sint (cropH s') = min 8192 (max 0 (sint h))) \<and>
   (cropW t = 0 \<or> cropH t = 0 \<longrightarrow>
      crop_stage env t = (t, gpuTexture env, descWidth env, descHeight env))"
proof (intro conjI impI)
  show "SetCaptureCropRect (Some s) x y w h \<noteq> None"
    by (simp add: SetCaptureCropRect_def Let_def)
next
  assume a: "SetCaptureCropRect (Some s) x y w h = Some s'"
  have s': "s' = s\<lparr> cropX := (if x <s 0 then 0 else x), cropY := (if y <s 0 then 0 else y),
      cropW := (if SAFE_MAX <s (if w <s 0 then 0 else w) then SAFE_MAX
                else (if w <s 0 then 0 else w)),
      cropH := (if SAFE_MAX <s (if h <s 0 then 0 else h) then SAFE_MAX
                else (if h <s 0 then 0 else h)) \<rparr>"
    using a unfolding SetCaptureCropRect_def Let_def by simp
  show "sint (cropX s') = max 0 (sint x)"
    unfolding s' by (simp add: sint_clamp_lo del: if_split split del: if_split)
  show "sint (cropY s') = max 0 (sint y)"
    unfolding s' by (simp add: sint_clamp_lo del: if_split split del: if_split)
  show "sint (cropW s') = min 8192 (max 0 (sint w))"
    unfolding s' by (simp add: sint_clamp_lo sint_clamp_hi del: if_split split del: if_split)
  show "sint (cropH s') = min 8192 (max 0 (sint h))"
    unfolding s' by (simp add: sint_clamp_lo sint_clamp_hi del: if_split split del: if_split)
next
  assume "cropW t = 0 \<or> cropH t = 0"
  then show "crop_stage env t = (t, gpuTexture env, descWidth env, descHeight env)"
    by (auto simp: crop_stage_def Let_def word_sless_alt)
qed

theorem crop_rect_clamped_witness:
  "SetCaptureCropRect (Some new_session) (- 5) 7 9000 0 =
     Some (new_session\<lparr> cropX := 0, cropY := 7, cropW := 8192, cropH := 0 \<rparr>) \<and>
   sint (cropX (new_session\<lparr> cropX := 0, cropY := 7, cropW := 8192, cropH := 0 \<rparr>)) =
     max 0 (sint (- 5 :: cint)) \<and>
   sint (cropW (new_session\<lparr> cropX := 0, cropY := 7, cropW := 8192, cropH := 0 \<rparr>)) =
     min 8192 (max 0 (sint (9000 :: cint))) \<and>
   cropH (new_session\<lparr> cropX := 0, cropY := 7, cropW := 8192, cropH := 0 \<rparr>) = 0 \<and>
   crop_stage (sample_frame 2 2 16)
       (new_session\<lparr> cropX := 0, cropY := 7, cropW := 8192, cropH := 0 \<rparr>) =
     (new_session\<lparr> cropX := 0, cropY := 7, cropW := 8192, cropH := 0 \<rparr>, 1, 2, 2)"
proof -
  let ?t = "new_session\<lparr> cropX := 0, cropY := 7, cropW := 8192, cropH := 0 \<rparr>"
  have h1: "SetCaptureCropRect (Some new_session) (- 5) 7 9000 0 = Some ?t"
    by (simp add: SetCaptureCropRect_def SAFE_MAX_def word_sless_alt)
  have h2: "cropH ?t = 0"
    by simp
  note th = crop_rect_clamped [where s = new_session and x = "- 5" and y = 7 and w = 9000
      and h = 0 and s' = ?t and t = ?t and env = "sample_frame 2 2 16"]
  have c1: "sint (cropX ?t) = max 0 (sint (- 5 :: cint))"
    using th h1 by blast
  have c2: "sint (cropW ?t) = min 8192 (max 0 (sint (9000 :: cint)))"
    using th h1 by blast
  have "crop_stage (sample_frame 2 2 16) ?t =
      (?t, gpuTexture (sample_frame 2 2 16), descWidth (sample_frame 2 2 16),
       descHeight (sample_frame 2 2 16))"
    using th h2 by blast
  then have c3: "crop_stage (sample_frame 2 2 16) ?t = (?t, 1, 2, 2)"
    by (simp add: sample_frame_def)
  show ?thesis
    using h1 h2 c1 c2 c3 by simp
qed


section \<open>The scaled block and the general readback\<close>

text \<open>
  Claim C3 against the code. \<open>frameUpdated\<close> is set inside the locked re-check, so a
  scaled readback that succeeds while a lease is held leaves it false, and the general
  readback runs on the unscaled texture. Below, a session with one lease held and a
  maximum resolution of 2 x 1 gets a 4 x 2 frame on which every platform call succeeds:
  the scaled readback has filled the back buffer with the 2 x 1 image, and the staging
  texture of the general readback has been created anew for 4 x 2. When the lease is
  released between the two blocks, the general block publishes the frame at 4 x 2, above
  the maximum resolution.
\<close>

theorem vetoed_scaled_frame_is_read_back_unscaled:
  "backBuffer (OnFrameArrived (sample_frame 4 2 16)
      (one_pixel_session\<lparr> maxWidth := 2, maxHeight := 1, readers := 1 \<rparr>)) =
     [0, 1, 2, 3, 4, 5, 6, 7] \<and>
   stagingTextureWidth (one_pixel_session\<lparr> maxWidth := 2, maxHeight := 1, readers := 1 \<rparr>) = 1 \<and>
   stagingTextureWidth (OnFrameArrived (sample_frame 4 2 16)
      (one_pixel_session\<lparr> maxWidth := 2, maxHeight := 1, readers := 1 \<rparr>)) = 4 \<and>
   stagingTextureHeight (OnFrameArrived (sample_frame 4 2 16)
      (one_pixel_session\<lparr> maxWidth := 2, maxHeight := 1, readers := 1 \<rparr>)) = 2 \<and>
   width (OnFrameArrived ((sample_frame 4 2 16)\<lparr> raceBetween := [Release] \<rparr>)
      (one_pixel_session\<lparr> maxWidth := 2, maxHeight := 1, readers := 1 \<rparr>)) = 4 \<and>
   height (OnFrameArrived ((sample_frame 4 2 16)\<lparr> raceBetween := [Release] \<rparr>)
      (one_pixel_session\<lparr> maxWidth := 2, maxHeight := 1, readers := 1 \<rparr>)) = 2 \<and>
   frameCount (OnFrameArrived ((sample_frame 4 2 16)\<lparr> raceBetween := [Release] \<rparr>)
      (one_pixel_session\<lparr> maxWidth := 2, maxHeight := 1, readers := 1 \<rparr>)) = 2 \<and>
   length (latestData (OnFrameArrived ((sample_frame 4 2 16)\<lparr> raceBetween := [Release] \<rparr>)
      (one_pixel_session\<lparr> maxWidth := 2, maxHeight := 1, readers := 1 \<rparr>))) = 32"
  by (simp add: OnFrameArrived_def sample_frame_def one_pixel_session_def new_session_def
      crop_stage_def useScaler_def scale_stage_def readback_stage_def Let_def word_sless_alt
      ReleaseLatestFrame_def scale_4x2_to_2x1 readback_2x1 readback_4x2)

section \<open>The readback copy\<close>

text \<open>
  Claim C7. The copy that both readback blocks perform on a mapped texture of \<open>W\<close> by
  \<open>H\<close> pixels yields a host buffer of exactly \<open>W * 4 * H\<close> bytes, whatever the vector
  held before. When the mapped row pitch is \<open>W * 4\<close> the buffer is the first \<open>W * 4 * H\<close>
  bytes of the mapped memory, copied in one pass; otherwise it is the concatenation, for
  each row \<open>y\<close> below \<open>H\<close>, of the \<open>W * 4\<close> bytes at the row's offset, the rest of each
  pitch being left out. The row's offset is the 32-bit product of \<open>y\<close> and the pitch,
  which is \<open>y\<close> times the pitch whenever that is below \<open>2 ^ 32\<close>. After a successful map
  the scaled block holds this buffer for the target dimensions in \<open>latestData\<close> when it
  published and in \<open>backBuffer\<close> when it did not (\<open>scale_stage_flag\<close> says when it
  publishes). In the general block, when the staging texture is there or can be created,
  the map succeeds, the vector can grow and both loads of \<open>readers\<close> give 0, this buffer
  for the working dimensions becomes \<open>latestData\<close>, of \<open>W * 4 * H\<close> bytes, and the
  published width and height are the working dimensions.
\<close>

theorem readback_tightly_packed:
  "length (readback_copy W H m buf) = nat (sint W) * 4 * nat (sint H) \<and>
   (unat (RowPitch m) = nat (sint W) * 4 \<longrightarrow>
      readback_copy W H m buf = map (pData m) [0..<nat (sint W) * 4 * nat (sint H)]) \<and>
   (unat (RowPitch m) \<noteq> nat (sint W) * 4 \<longrightarrow>
      readback_copy W H m buf =
        concat (map (\<lambda>y. map (\<lambda>x. pData m (unat (of_nat y * RowPitch m) + x))
                              [0..<nat (sint W) * 4]) [0..<nat (sint H)])) \<and>
   (y * unat (RowPitch m) < 2 ^ 32 \<longrightarrow> unat (of_nat y * RowPitch m) = y * unat (RowPitch m)) \<and>
   (createReadback env \<and> mapReadback env = Some m \<and> \<not> backBufferThrows env \<longrightarrow>
      (if snd (scale_stage env w h s) then latestData (fst (scale_stage env w h s))
       else backBuffer (fst (scale_stage env w h s))) =
      readback_copy (scale_dim w (scale_factor (maxWidth s) (maxHeight s) w h))
        (scale_dim h (scale_factor (maxWidth s) (maxHeight s) w h)) m (backBuffer s)) \<and>
   (mapStaging env = Some m \<and> \<not> localBufferThrows env \<and>
    (stagingTexture s \<noteq> None \<and> stagingTextureWidth s = w \<and> stagingTextureHeight s = h
     \<or> createStaging env \<noteq> None) \<and>
    readers s = 0 \<and> readers (run_leases (raceGeneral env) s) = 0 \<longrightarrow>
      latestData (readback_stage env w h s) = readback_copy w h m [] \<and>
      length (latestData (readback_stage env w h s)) = nat (sint w) * 4 * nat (sint h) \<and>
      width (readback_stage env w h s) = w \<and> height (readback_stage env w h s) = h)"
proof (intro conjI impI)
  show "length (readback_copy W H m buf) = nat (sint W) * 4 * nat (sint H)"
    by (rule length_readback_copy)
next
  assume "unat (RowPitch m) = nat (sint W) * 4"
  then show "readback_copy W H m buf = map (pData m) [0..<nat (sint W) * 4 * nat (sint H)]"
    by (simp add: readback_copy_eq)
next
  assume "unat (RowPitch m) \<noteq> nat (sint W) * 4"
  then show "readback_copy W H m buf =
        concat (map (\<lambda>y. map (\<lambda>x. pData m (unat (of_nat y * RowPitch m) + x))
                              [0..<nat (sint W) * 4]) [0..<nat (sint H)])"
    by (simp add: readback_copy_eq)
next
  assume "y * unat (RowPitch m) < 2 ^ 32"
  then show "unat (of_nat y * RowPitch m) = y * unat (RowPitch m)"
    by (rule row_offset)
next
  assume "createReadback env \<and> mapReadback env = Some m \<and> \<not> backBufferThrows env"
  then show "(if snd (scale_stage env w h s) then latestData (fst (scale_stage env w h s))
       else backBuffer (fst (scale_stage env w h s))) =
      readback_copy (scale_dim w (scale_factor (maxWidth s) (maxHeight s) w h))
        (scale_dim h (scale_factor (maxWidth s) (maxHeight s) w h)) m (backBuffer s)"
    using scale_stage_buffer [of env m w h s] by blast
next
  assume a: "mapStaging env = Some m \<and> \<not> localBufferThrows env \<and>
    (stagingTexture s \<noteq> None \<and> stagingTextureWidth s = w \<and> stagingTextureHeight s = h
     \<or> createStaging env \<noteq> None) \<and>
    readers s = 0 \<and> readers (run_leases (raceGeneral env) s) = 0"
  then have p: "latestData (readback_stage env w h s) = readback_copy w h m [] \<and>
     width (readback_stage env w h s) = w \<and> height (readback_stage env w h s) = h"
    by (intro readback_stage_publishes) simp_all
  show "latestData (readback_stage env w h s) = readback_copy w h m []"
    using p by simp
  show "length (latestData (readback_stage env w h s)) = nat (sint w) * 4 * nat (sint h)"
    using p by (simp add: length_readback_copy)
  show "width (readback_stage env w h s) = w" using p by simp
  show "height (readback_stage env w h s) = h" using p by simp
qed

theorem readback_tightly_packed_witness:
  "unat (RowPitch (sample_map 16)) \<noteq> nat (sint (2 :: cint)) * 4 \<and>
   readback_copy 2 2 (sample_map 16) [9, 9] =
     [0, 1, 2, 3, 4, 5, 6, 7, 16, 17, 18, 19, 20, 21, 22, 23] \<and>
   unat (RowPitch (sample_map 4)) = nat (sint (1 :: cint)) * 4 \<and>
   readback_copy 1 1 (sample_map 4) [9, 9] = [0, 1, 2, 3] \<and>
   mapStaging (sample_frame 2 2 16) = Some (sample_map 16) \<and>
   \<not> localBufferThrows (sample_frame 2 2 16) \<and>
   createStaging (sample_frame 2 2 16) \<noteq> None \<and>
   readers new_session = 0 \<and>
   readers (run_leases (raceGeneral (sample_frame 2 2 16)) new_session) = 0 \<and>
   latestData (readback_stage (sample_frame 2 2 16) 2 2 new_session) =
     [0, 1, 2, 3, 4, 5, 6, 7, 16, 17, 18, 19, 20, 21, 22, 23] \<and>
   width (readback_stage (sample_frame 2 2 16) 2 2 new_session) = 2 \<and>
   height (readback_stage (sample_frame 2 2 16) 2 2 new_session) = 2 \<and>
   createReadback (sample_frame 4 2 16) \<and>
   mapReadback (sample_frame 4 2 16) = Some (sample_map 16) \<and>
   \<not> backBufferThrows (sample_frame 4 2 16) \<and>
   snd (scale_stage (sample_frame 4 2 16) 4 2 (new_session\<lparr> maxWidth := 2, maxHeight := 1 \<rparr>)) \<and>
   latestData (fst (scale_stage (sample_frame 4 2 16) 4 2
       (new_session\<lparr> maxWidth := 2, maxHeight := 1 \<rparr>))) = [0, 1, 2, 3, 4, 5, 6, 7]"
proof -
  let ?e2 = "sample_frame 2 2 16"
  let ?e4 = "sample_frame 4 2 16"
  let ?s4 = "new_session\<lparr> maxWidth := 2, maxHeight := 1 \<rparr>"
  have h1: "unat (RowPitch (sample_map 16)) \<noteq> nat (sint (2 :: cint)) * 4"
    by (simp add: sample_map_def)
  have h2: "unat (RowPitch (sample_map 4)) = nat (sint (1 :: cint)) * 4"
    by (simp add: sample_map_def)
  have "readback_copy 2 2 (sample_map 16) [9, 9] =
      concat (map (\<lambda>y. map (\<lambda>x. pData (sample_map 16)
                  (unat (of_nat y * RowPitch (sample_map 16)) + x))
                [0..<nat (sint (2 :: cint)) * 4]) [0..<nat (sint (2 :: cint))])"
    using readback_tightly_packed [where W = 2 and H = 2 and m = "sample_map 16"
        and buf = "[9, 9]"] h1 by blast
  also have "\<dots> = [0, 1, 2, 3, 4, 5, 6, 7, 16, 17, 18, 19, 20, 21, 22, 23]"
    by code_simp
  finally have c1: "readback_copy 2 2 (sample_map 16) [9, 9] =
     [0, 1, 2, 3, 4, 5, 6, 7, 16, 17, 18, 19, 20, 21, 22, 23]" .
  have "readback_copy 1 1 (sample_map 4) [9, 9] =
      map (pData (sample_map 4)) [0..<nat (sint (1 :: cint)) * 4 * nat (sint (1 :: cint))]"
    using readback_tightly_packed [where W = 1 and H = 1 and m = "sample_map 4"
        and buf = "[9, 9]"] h2 by blast
  also have "\<dots> = [0, 1, 2, 3]"
    by code_simp
  finally have c2: "readback_copy 1 1 (sample_map 4) [9, 9] = [0, 1, 2, 3]" .
  have g: "mapStaging ?e2 = Some (sample_map 16)" "\<not> localBufferThrows ?e2"
    "createStaging ?e2 \<noteq> None" "readers new_session = 0"
    "readers (run_leases (raceGeneral ?e2) new_session) = 0"
    by (simp_all add: sample_frame_def new_session_def)
  have gp: "latestData (readback_stage ?e2 2 2 new_session) =
      readback_copy 2 2 (sample_map 16) [] \<and>
    width (readback_stage ?e2 2 2 new_session) = 2 \<and>
    height (readback_stage ?e2 2 2 new_session) = 2"
    using readback_tightly_packed [where env = ?e2 and s = new_session and w = 2 and h = 2
        and m = "sample_map 16"] g by blast
  have r22: "readback_copy 2 2 (sample_map 16) [] =
      [0, 1, 2, 3, 4, 5, 6, 7, 16, 17, 18, 19, 20, 21, 22, 23]"
    by code_simp
  have c3: "latestData (readback_stage ?e2 2 2 new_session) =
      [0, 1, 2, 3, 4, 5, 6, 7, 16, 17, 18, 19, 20, 21, 22, 23]"
    using gp r22 by simp
  have k: "createReadback ?e4" "mapReadback ?e4 = Some (sample_map 16)"
    "\<not> backBufferThrows ?e4"
    by (simp_all add: sample_frame_def)
  have fl: "snd (scale_stage ?e4 4 2 ?s4)"
    by (simp add: scale_stage_flag sample_frame_def new_session_def)
  have "(if snd (scale_stage ?e4 4 2 ?s4) then latestData (fst (scale_stage ?e4 4 2 ?s4))
       else backBuffer (fst (scale_stage ?e4 4 2 ?s4))) =
      readback_copy (scale_dim 4 (scale_factor (maxWidth ?s4) (maxHeight ?s4) 4 2))
        (scale_dim 2 (scale_factor (maxWidth ?s4) (maxHeight ?s4) 4 2)) (sample_map 16)
        (backBuffer ?s4)"
    using readback_tightly_packed [where env = ?e4 and s = ?s4 and w = 4 and h = 2
        and m = "sample_map 16"] k by blast
  then have c4: "latestData (fst (scale_stage ?e4 4 2 ?s4)) = [0, 1, 2, 3, 4, 5, 6, 7]"
    using fl by (simp add: scale_4x2_to_2x1 readback_2x1 new_session_def)
  show ?thesis
    using h1 h2 c1 c2 g gp c3 k fl c4 by simp
qed

section \<open>The target dimensions of the scaler\<close>





end
